theory Spec2Isabelle
  imports Main "HOL-Library.Word"
begin

section \<open>pyspark.ml.image: the image schema accessor\<close>

text \<open>
  A shallow embedding of \<^verbatim>\<open>python/pyspark/ml/image.py\<close>: the class
  \<^verbatim>\<open>_ImageSchema\<close> with its four lazily cached properties, the two conversions
  \<^verbatim>\<open>toNDArray\<close> and \<^verbatim>\<open>toImage\<close>, the module-level singleton and
  the patch of the constructor. Python exceptions are values of the type \<open>error\<close>; a
  function that can raise returns \<open>error + 'a\<close>, and a function that reads or writes the
  attributes of the singleton also returns the module state. \<^verbatim>\<open>readImages\<close> hands
  its arguments to the engine and touches none of the attributes; it is not part of the
  embedding.
\<close>

subsection \<open>Python values and exceptions\<close>

type_synonym u8 = "8 word"

datatype error =
    ValueError string
  | KeyError string
  | AttributeError string
  | TypeError string
  | RuntimeError string
  | EngineError string

text \<open>Sequencing of two computations that can raise: the first exception wins.\<close>

definition bind :: "error + 'a \<Rightarrow> ('a \<Rightarrow> error + 'b) \<Rightarrow> error + 'b" where
  "bind m f = (case m of Inl e \<Rightarrow> Inl e | Inr x \<Rightarrow> f x)"

text \<open>The values an image row holds: text, integers and a byte buffer.\<close>

datatype pyval = PyStr string | PyInt int | PyBytes "u8 list"

definition as_int :: "pyval \<Rightarrow> error + int" where
  "as_int v = (case v of PyInt i \<Rightarrow> Inr i | _ \<Rightarrow> Inl (TypeError ''an integer is required''))"

definition as_buffer :: "pyval \<Rightarrow> error + u8 list" where
  "as_buffer v = (case v of PyBytes b \<Rightarrow> Inr b | _ \<Rightarrow> Inl (TypeError ''a bytes-like object is required''))"

subsection \<open>Rows\<close>

text \<open>
  A \<^verbatim>\<open>pyspark.sql.types.Row\<close> is a tuple of values that carries the list of its
  field names in \<^verbatim>\<open>__fields__\<close>.
\<close>

record row =
  row_fields :: "string list"
  row_values :: "pyval list"

text \<open>
  Modelled from the spec: \<^verbatim>\<open>_create_row\<close> of \<^verbatim>\<open>pyspark.sql.types\<close>, which is not
  among the sources. It builds the row by field order, not by name: the values stay in the
  order given and the names are attached as they are.
\<close>

definition create_row :: "string list \<Rightarrow> pyval list \<Rightarrow> row" where
  "create_row names vals = \<lparr>row_fields = names, row_values = vals\<rparr>"

text \<open>\<^verbatim>\<open>list.index\<close>: the position of the first occurrence.\<close>

fun index_of :: "string list \<Rightarrow> string \<Rightarrow> nat option" where
  "index_of [] item = None"
| "index_of (x # xs) item =
     (if x = item then Some 0 else map_option Suc (index_of xs item))"

text \<open>
  Modelled from the spec: named-field access on a row (\<^verbatim>\<open>image.height\<close>), which is
  \<^verbatim>\<open>Row.__getattr__\<close> of \<^verbatim>\<open>pyspark.sql.types\<close>, not among the sources. The name
  is looked up in the row's field names and the value at that position is returned; a name
  that is absent, or that has no value at its position, is an \<^verbatim>\<open>AttributeError\<close>.
\<close>

definition getattr :: "row \<Rightarrow> string \<Rightarrow> error + pyval" where
  "getattr r item =
     (case index_of (row_fields r) item of
        None \<Rightarrow> Inl (AttributeError item)
      | Some idx \<Rightarrow>
          if idx < length (row_values r) then Inr (row_values r ! idx)
          else Inl (AttributeError item))"

subsection \<open>Arrays\<close>

text \<open>
  A numpy array as the code uses it: its shape and its elements in row-major order (what
  \<^verbatim>\<open>ravel()\<close> returns). \<^verbatim>\<open>ndim\<close> is the length of the shape. An array the
  library can hand over has as many elements as its shape says.
\<close>

record 'a ndarray =
  shape :: "nat list"
  ravel :: "'a list"

definition ndim :: "'a ndarray \<Rightarrow> nat" where
  "ndim a = length (shape a)"

definition wf_ndarray :: "'a ndarray \<Rightarrow> bool" where
  "wf_ndarray a \<longleftrightarrow> length (ravel a) = prod_list (shape a)"

text \<open>
  \<^verbatim>\<open>array.astype(dtype=np.uint8)\<close> on an array of integers: every element is
  reduced modulo 256, the shape is kept.
\<close>

definition astype_uint8 :: "int ndarray \<Rightarrow> u8 ndarray" where
  "astype_uint8 a = \<lparr>shape = shape a, ravel = map word_of_int (ravel a)\<rparr>"

text \<open>\<^verbatim>\<open>bytearray(a)\<close> of a one-dimensional array of bytes: a fresh copy of them.\<close>

definition bytearray :: "u8 list \<Rightarrow> u8 list" where
  "bytearray bs = bs"

text \<open>
  The constructor \<^verbatim>\<open>np.ndarray(shape, dtype=np.uint8, buffer, strides)\<close> for three
  dimensions, offset 0 and one byte per element, in the order in which numpy works:
  \<^item> the shape and then the strides are converted to \<^verbatim>\<open>npy_intp\<close>, a signed 64-bit
    integer; a Python integer outside that range is refused;
  \<^item> \<^verbatim>\<open>PyArray_CheckStrides\<close> checks that the strides stay inside the buffer:
    \<^verbatim>\<open>offset_bounds_from_strides\<close> gives the half-open range of offsets the array can
    touch, empty when a dimension is 0, and a buffer of length 0 is taken to be as long as
    the shape needs (\<^verbatim>\<open>PyArray_MultiplyList\<close>). This is C arithmetic on
    \<^verbatim>\<open>npy_intp\<close>: \<open>intp\<close> is the value a 64-bit register holds;
  \<^item> the array is made: a negative dimension is refused, and so is a shape whose non-zero
    dimensions multiply to more than \<^verbatim>\<open>npy_intp\<close> holds (this product is checked for
    overflow, not wrapped).
  The element at \<open>(i, j, k)\<close> is the byte at offset \<open>i * s0 + j * s1 + k * s2\<close>. A
  buffer is a Python object, whose length fits \<^verbatim>\<open>npy_intp\<close>.
\<close>

definition fits_intp :: "int \<Rightarrow> bool" where
  "fits_intp x \<longleftrightarrow> - (2 ^ 63) \<le> x \<and> x < 2 ^ 63"

definition intp :: "int \<Rightarrow> int" where
  "intp x = (x + 2 ^ 63) mod 2 ^ 64 - 2 ^ 63"

fun offset_bounds_from_strides :: "int list \<Rightarrow> int list \<Rightarrow> int \<Rightarrow> int \<Rightarrow> int \<times> int" where
  "offset_bounds_from_strides (d # dims) (st # strides) lower upper =
     (if d = 0 then (0, 0)
      else if intp (st * intp (d - 1)) > 0
        then offset_bounds_from_strides dims strides lower (intp (upper + intp (st * intp (d - 1))))
        else offset_bounds_from_strides dims strides (intp (lower + intp (st * intp (d - 1)))) upper)"
| "offset_bounds_from_strides _ _ lower upper = (lower, intp (upper + 1))"

fun MultiplyList :: "int list \<Rightarrow> int \<Rightarrow> int" where
  "MultiplyList [] s = s"
| "MultiplyList (d # dims) s = MultiplyList dims (intp (s * d))"

definition CheckStrides :: "int \<Rightarrow> int list \<Rightarrow> int list \<Rightarrow> bool" where
  "CheckStrides numbytes dims newstrides =
     (let nb = (if numbytes = 0 then MultiplyList dims 1 else numbytes);
          bounds = offset_bounds_from_strides dims newstrides 0 0
      in \<not> (snd bounds > nb \<or> fst bounds < 0))"

text \<open>
  The loop over the dimensions in \<^verbatim>\<open>PyArray_NewFromDescr\<close>, which starts from the
  size of one element and gives the number of bytes of the array.
\<close>

fun check_dims :: "int list \<Rightarrow> int \<Rightarrow> error + int" where
  "check_dims [] nbytes = Inr nbytes"
| "check_dims (d # dims) nbytes =
     (if d = 0 then check_dims dims nbytes
      else if d < 0 then Inl (ValueError ''negative dimensions are not allowed'')
      else if \<not> fits_intp (nbytes * d)
        then Inl (ValueError ''array is too big; `arr.size * arr.dtype.itemsize` is larger than the maximum possible size.'')
      else check_dims dims (nbytes * d))"

definition view_elems :: "u8 list \<Rightarrow> nat \<Rightarrow> nat \<Rightarrow> nat \<Rightarrow> int \<Rightarrow> int \<Rightarrow> int \<Rightarrow> u8 list" where
  "view_elems buffer d0 d1 d2 s0 s1 s2 =
     concat (map (\<lambda>i. concat (map (\<lambda>j. map (\<lambda>k.
        buffer ! nat (int i * s0 + int j * s1 + int k * s2))
       [0..<d2]) [0..<d1])) [0..<d0])"

definition np_ndarray :: "int \<times> int \<times> int \<Rightarrow> u8 list \<Rightarrow> int \<times> int \<times> int \<Rightarrow> error + u8 ndarray" where
  "np_ndarray shp buffer strides =
     (case shp of (d0, d1, d2) \<Rightarrow> case strides of (s0, s1, s2) \<Rightarrow>
        if \<not> (fits_intp d0 \<and> fits_intp d1 \<and> fits_intp d2)
        then Inl (ValueError ''Maximum allowed dimension exceeded'')
        else if \<not> (fits_intp s0 \<and> fits_intp s1 \<and> fits_intp s2)
        then Inl (ValueError ''Maximum allowed dimension exceeded'')
        else if \<not> CheckStrides (int (length buffer)) [d0, d1, d2] [s0, s1, s2]
        then Inl (ValueError ''strides is incompatible with shape of requested array and size of buffer'')
        else (case check_dims [d0, d1, d2] 1 of
          Inl e \<Rightarrow> Inl e
        | Inr nbytes \<Rightarrow>
            Inr \<lparr>shape = [nat d0, nat d1, nat d2],
                 ravel = view_elems buffer (nat d0) (nat d1) (nat d2) s0 s1 s2\<rparr>))"

text \<open>
  The sizes numpy can hold: the non-zero ones among three non-negative dimensions
  multiply to less than \<open>2 ^ 63\<close>. Every array that numpy has made has such a shape.
\<close>

definition size_fits :: "int \<Rightarrow> int \<Rightarrow> int \<Rightarrow> bool" where
  "size_fits h w c \<longleftrightarrow> max 1 h * max 1 w * max 1 c < 2 ^ 63"

subsection \<open>Row to array\<close>

text \<open>
  \<^verbatim>\<open>toNDArray(self, image)\<close>: reads \<^verbatim>\<open>height\<close>, \<^verbatim>\<open>width\<close>,
  \<^verbatim>\<open>nChannels\<close> and \<^verbatim>\<open>data\<close> of the row and builds the view with strides
  \<^verbatim>\<open>(width * nChannels, nChannels, 1)\<close>. It has no check of its own and does not
  use \<^verbatim>\<open>self\<close>.
\<close>

definition toNDArray :: "row \<Rightarrow> error + u8 ndarray" where
  "toNDArray image_row =
     bind (getattr image_row ''height'') (\<lambda>height.
     bind (getattr image_row ''width'') (\<lambda>width.
     bind (getattr image_row ''nChannels'') (\<lambda>nChannels.
     bind (getattr image_row ''data'') (\<lambda>data.
     bind (as_int height) (\<lambda>h.
     bind (as_int width) (\<lambda>w.
     bind (as_int nChannels) (\<lambda>c.
     bind (as_buffer data) (\<lambda>buf.
       np_ndarray (h, w, c) buf (w * c, c, 1)))))))))"

subsection \<open>The engine\<close>

text \<open>
  The JVM side, \<^verbatim>\<open>ctx._jvm.org.apache.spark.ml.image.ImageSchema\<close>, is outside the
  module. Each of its four metadata routines is a function from the number of the
  invocation to what that invocation gives back, together with a count of the invocations
  made so far. A reply \<open>Fails\<close> stands for every way the round trip can raise, no active
  \<^verbatim>\<open>SparkContext\<close> included.
\<close>

datatype 'v reply = Fails string | Returns 'v

datatype data_type = StructType "(string \<times> string \<times> bool) list"

record engine =
  imageSchema_reply :: "nat \<Rightarrow> data_type reply"
  ocvTypes_reply :: "nat \<Rightarrow> (string \<rightharpoonup> int) reply"
  imageFields_reply :: "nat \<Rightarrow> string list reply"
  undefinedImageType_reply :: "nat \<Rightarrow> string reply"
  imageSchema_calls :: nat
  ocvTypes_calls :: nat
  imageFields_calls :: nat
  undefinedImageType_calls :: nat

definition jvm_imageSchema :: "engine \<Rightarrow> data_type reply \<times> engine" where
  "jvm_imageSchema e =
     (imageSchema_reply e (imageSchema_calls e),
      e\<lparr>imageSchema_calls := Suc (imageSchema_calls e)\<rparr>)"

definition jvm_ocvTypes :: "engine \<Rightarrow> (string \<rightharpoonup> int) reply \<times> engine" where
  "jvm_ocvTypes e =
     (ocvTypes_reply e (ocvTypes_calls e),
      e\<lparr>ocvTypes_calls := Suc (ocvTypes_calls e)\<rparr>)"

definition jvm_imageFields :: "engine \<Rightarrow> string list reply \<times> engine" where
  "jvm_imageFields e =
     (imageFields_reply e (imageFields_calls e),
      e\<lparr>imageFields_calls := Suc (imageFields_calls e)\<rparr>)"

definition jvm_undefinedImageType :: "engine \<Rightarrow> string reply \<times> engine" where
  "jvm_undefinedImageType e =
     (undefinedImageType_reply e (undefinedImageType_calls e),
      e\<lparr>undefinedImageType_calls := Suc (undefinedImageType_calls e)\<rparr>)"

subsection \<open>The class and the module state\<close>

text \<open>
  The four attributes \<^verbatim>\<open>_imageSchema\<close>, \<^verbatim>\<open>_ocvTypes\<close>, \<^verbatim>\<open>_imageFields\<close>
  and \<^verbatim>\<open>_undefinedImageType\<close> of an instance; \<open>None\<close> is Python's
  \<^verbatim>\<open>None\<close>.
\<close>

record accessor =
  priv_imageSchema :: "data_type option"
  priv_ocvTypes :: "(string \<rightharpoonup> int) option"
  priv_imageFields :: "string list option"
  priv_undefinedImageType :: "string option"

text \<open>
  The module state: which function the class has as \<^verbatim>\<open>__init__\<close>, the instance bound
  to the module attribute \<^verbatim>\<open>ImageSchema\<close>, and the engine.
\<close>

datatype init_fn = original_init | disallow_instance

record module_state =
  class_init :: init_fn
  ImageSchema :: accessor
  jvm :: engine

text \<open>The body of the original \<^verbatim>\<open>__init__\<close>: the four attributes are unset.\<close>

definition init :: accessor where
  "init = \<lparr>priv_imageSchema = None, priv_ocvTypes = None,
           priv_imageFields = None, priv_undefinedImageType = None\<rparr>"

text \<open>
  A call \<^verbatim>\<open>_ImageSchema()\<close>: it runs whatever \<^verbatim>\<open>__init__\<close> the class has at
  that moment. \<^verbatim>\<open>_disallow_instance\<close> raises before it assigns anything.
\<close>

definition construct :: "module_state \<Rightarrow> (error + accessor) \<times> module_state" where
  "construct s =
     (case class_init s of
        original_init \<Rightarrow> (Inr init, s)
      | disallow_instance \<Rightarrow>
          (Inl (RuntimeError ''Creating instance of _ImageSchema class is disallowed.''), s))"

text \<open>
  Loading the module: \<^verbatim>\<open>ImageSchema = _ImageSchema()\<close> runs the original
  \<^verbatim>\<open>__init__\<close>, then \<^verbatim>\<open>_ImageSchema.__init__ = _disallow_instance\<close> replaces
  it.
\<close>

definition module_load :: "engine \<Rightarrow> module_state" where
  "module_load e = \<lparr>class_init = disallow_instance, ImageSchema = init, jvm = e\<rparr>"

subsection \<open>The four cached properties\<close>

definition imageSchema :: "module_state \<Rightarrow> (error + data_type) \<times> module_state" where
  "imageSchema s =
     (case priv_imageSchema (ImageSchema s) of
        Some v \<Rightarrow> (Inr v, s)
      | None \<Rightarrow>
          (case jvm_imageSchema (jvm s) of
             (Fails msg, e) \<Rightarrow> (Inl (EngineError msg), s\<lparr>jvm := e\<rparr>)
           | (Returns v, e) \<Rightarrow>
               (Inr v, s\<lparr>ImageSchema := (ImageSchema s)\<lparr>priv_imageSchema := Some v\<rparr>, jvm := e\<rparr>)))"

definition ocvTypes :: "module_state \<Rightarrow> (error + (string \<rightharpoonup> int)) \<times> module_state" where
  "ocvTypes s =
     (case priv_ocvTypes (ImageSchema s) of
        Some v \<Rightarrow> (Inr v, s)
      | None \<Rightarrow>
          (case jvm_ocvTypes (jvm s) of
             (Fails msg, e) \<Rightarrow> (Inl (EngineError msg), s\<lparr>jvm := e\<rparr>)
           | (Returns v, e) \<Rightarrow>
               (Inr v, s\<lparr>ImageSchema := (ImageSchema s)\<lparr>priv_ocvTypes := Some v\<rparr>, jvm := e\<rparr>)))"

definition imageFields :: "module_state \<Rightarrow> (error + string list) \<times> module_state" where
  "imageFields s =
     (case priv_imageFields (ImageSchema s) of
        Some v \<Rightarrow> (Inr v, s)
      | None \<Rightarrow>
          (case jvm_imageFields (jvm s) of
             (Fails msg, e) \<Rightarrow> (Inl (EngineError msg), s\<lparr>jvm := e\<rparr>)
           | (Returns v, e) \<Rightarrow>
               (Inr v, s\<lparr>ImageSchema := (ImageSchema s)\<lparr>priv_imageFields := Some v\<rparr>, jvm := e\<rparr>)))"

definition undefinedImageType :: "module_state \<Rightarrow> (error + string) \<times> module_state" where
  "undefinedImageType s =
     (case priv_undefinedImageType (ImageSchema s) of
        Some v \<Rightarrow> (Inr v, s)
      | None \<Rightarrow>
          (case jvm_undefinedImageType (jvm s) of
             (Fails msg, e) \<Rightarrow> (Inl (EngineError msg), s\<lparr>jvm := e\<rparr>)
           | (Returns v, e) \<Rightarrow>
               (Inr v, s\<lparr>ImageSchema := (ImageSchema s)\<lparr>priv_undefinedImageType := Some v\<rparr>, jvm := e\<rparr>)))"

subsection \<open>Array to row\<close>

text \<open>\<^verbatim>\<open>d[k]\<close> on a dictionary: a missing key is a \<^verbatim>\<open>KeyError\<close>.\<close>

definition getitem :: "(string \<rightharpoonup> int) \<Rightarrow> string \<Rightarrow> error + int" where
  "getitem d k = (case d k of None \<Rightarrow> Inl (KeyError k) | Some v \<Rightarrow> Inr v)"

text \<open>
  \<^verbatim>\<open>toImage(self, array, origin="")\<close>. The argument \<open>origin_arg\<close> is \<open>None\<close> when the
  caller gives no origin. The order of the source is kept: the check of \<^verbatim>\<open>ndim\<close>,
  the read of the encoding map (on the module's singleton), the choice of the mode, the
  bytes, the read of the field names, the row. Instances cannot be made after loading, so
  \<^verbatim>\<open>self\<close> is the singleton.
\<close>

definition toImage :: "module_state \<Rightarrow> int ndarray \<Rightarrow> string option \<Rightarrow> (error + row) \<times> module_state" where
  "toImage s array origin_arg =
     (let origin = (case origin_arg of None \<Rightarrow> '''' | Some given \<Rightarrow> given) in
      if ndim array \<noteq> 3 then (Inl (ValueError ''Invalid array shape''), s)
      else
        let height = shape array ! 0; width = shape array ! 1; nChannels = shape array ! 2 in
        case ocvTypes s of
          (Inl e, s1) \<Rightarrow> (Inl e, s1)
        | (Inr types, s1) \<Rightarrow>
            (case (if nChannels = 1 then getitem types ''CV_8UC1''
                   else if nChannels = 3 then getitem types ''CV_8UC3''
                   else if nChannels = 4 then getitem types ''CV_8UC4''
                   else Inl (ValueError ''Invalid number of channels'')) of
               Inl e \<Rightarrow> (Inl e, s1)
             | Inr mode \<Rightarrow>
                 let data = bytearray (ravel (astype_uint8 array)) in
                 (case imageFields s1 of
                    (Inl e, s2) \<Rightarrow> (Inl e, s2)
                  | (Inr names, s2) \<Rightarrow>
                      (Inr (create_row names
                              [PyStr origin, PyInt (int height), PyInt (int width),
                               PyInt (int nChannels), PyInt mode, PyBytes data]), s2))))"

subsection \<open>Runs of the module\<close>

text \<open>
  The states a process can be in: the state after loading, and every state reached from
  it by reading a property, converting an array or trying to construct an instance.
  \<^verbatim>\<open>toNDArray\<close> and \<^verbatim>\<open>readImages\<close> assign nothing in the module.
\<close>

inductive reachable :: "module_state \<Rightarrow> bool" where
  loaded: "reachable (module_load e)"
| read_imageSchema: "reachable s \<Longrightarrow> reachable (snd (imageSchema s))"
| read_ocvTypes: "reachable s \<Longrightarrow> reachable (snd (ocvTypes s))"
| read_imageFields: "reachable s \<Longrightarrow> reachable (snd (imageFields s))"
| read_undefinedImageType: "reachable s \<Longrightarrow> reachable (snd (undefinedImageType s))"
| call_toImage: "reachable s \<Longrightarrow> reachable (snd (toImage s a origin_arg))"
| call_construct: "reachable s \<Longrightarrow> reachable (snd (construct s))"

subsection \<open>The four properties seen as one state machine\<close>

text \<open>
  To state what the four properties have in common, they are read through one function:
  \<open>cached\<close> is the attribute behind a property (\<open>None\<close> while unset), \<open>fetches\<close>
  the number of round trips made for it so far, \<open>reply_at\<close> what the engine gives back
  at a given invocation, and \<open>read_property\<close> the property itself. \<open>raised\<close> is how a
  reply reaches the caller.
\<close>

datatype metadata_field =
  Field_imageSchema | Field_ocvTypes | Field_imageFields | Field_undefinedImageType

datatype metadata =
  Schema data_type | Types "string \<rightharpoonup> int" | Names "string list" | Marker string

fun cached :: "metadata_field \<Rightarrow> module_state \<Rightarrow> metadata option" where
  "cached Field_imageSchema s = map_option Schema (priv_imageSchema (ImageSchema s))"
| "cached Field_ocvTypes s = map_option Types (priv_ocvTypes (ImageSchema s))"
| "cached Field_imageFields s = map_option Names (priv_imageFields (ImageSchema s))"
| "cached Field_undefinedImageType s = map_option Marker (priv_undefinedImageType (ImageSchema s))"

fun fetches :: "metadata_field \<Rightarrow> module_state \<Rightarrow> nat" where
  "fetches Field_imageSchema s = imageSchema_calls (jvm s)"
| "fetches Field_ocvTypes s = ocvTypes_calls (jvm s)"
| "fetches Field_imageFields s = imageFields_calls (jvm s)"
| "fetches Field_undefinedImageType s = undefinedImageType_calls (jvm s)"

fun reply_at :: "metadata_field \<Rightarrow> module_state \<Rightarrow> nat \<Rightarrow> metadata reply" where
  "reply_at Field_imageSchema s n = map_reply Schema (imageSchema_reply (jvm s) n)"
| "reply_at Field_ocvTypes s n = map_reply Types (ocvTypes_reply (jvm s) n)"
| "reply_at Field_imageFields s n = map_reply Names (imageFields_reply (jvm s) n)"
| "reply_at Field_undefinedImageType s n = map_reply Marker (undefinedImageType_reply (jvm s) n)"

fun read_property :: "metadata_field \<Rightarrow> module_state \<Rightarrow> (error + metadata) \<times> module_state" where
  "read_property Field_imageSchema s = apfst (map_sum id Schema) (imageSchema s)"
| "read_property Field_ocvTypes s = apfst (map_sum id Types) (ocvTypes s)"
| "read_property Field_imageFields s = apfst (map_sum id Names) (imageFields s)"
| "read_property Field_undefinedImageType s = apfst (map_sum id Marker) (undefinedImageType s)"

definition raised :: "metadata reply \<Rightarrow> error + metadata" where
  "raised r = (case r of Fails msg \<Rightarrow> Inl (EngineError msg) | Returns v \<Rightarrow> Inr v)"

subsection \<open>Concrete inputs\<close>

text \<open>
  The field names of an image row in the order of the schema, and an engine that answers
  every invocation, with the names in that order and with the encodings
  \<^verbatim>\<open>CV_8UC1\<close>, \<^verbatim>\<open>CV_8UC3\<close> and \<^verbatim>\<open>CV_8UC4\<close> among its types. Two
  variants of it: one has no active session at the first request for the types, the other
  reports the field names in alphabetical order.
\<close>

definition image_field_names :: "string list" where
  "image_field_names = [''origin'', ''height'', ''width'', ''nChannels'', ''mode'', ''data'']"

definition example_types :: "string \<rightharpoonup> int" where
  "example_types = [''Undefined'' \<mapsto> -1, ''CV_8U'' \<mapsto> 0, ''CV_8UC1'' \<mapsto> 0,
     ''CV_8UC3'' \<mapsto> 16, ''CV_8UC4'' \<mapsto> 24]"

definition example_engine :: engine where
  "example_engine = \<lparr>
     imageSchema_reply = (\<lambda>n. Returns (StructType [(''image'', ''struct'', True)])),
     ocvTypes_reply = (\<lambda>n. Returns example_types),
     imageFields_reply = (\<lambda>n. Returns image_field_names),
     undefinedImageType_reply = (\<lambda>n. Returns ''Undefined''),
     imageSchema_calls = 0, ocvTypes_calls = 0, imageFields_calls = 0,
     undefinedImageType_calls = 0\<rparr>"

definition flaky_engine :: engine where
  "flaky_engine = example_engine\<lparr>ocvTypes_reply :=
     (\<lambda>n. if n = 0 then Fails ''no active session'' else Returns example_types)\<rparr>"

definition alphabetical_engine :: engine where
  "alphabetical_engine = example_engine\<lparr>imageFields_reply :=
     (\<lambda>n. Returns [''data'', ''height'', ''mode'', ''nChannels'', ''origin'', ''width''])\<rparr>"

text \<open>Arrays with one, three, four and two channels, and with two and four dimensions.\<close>

definition example_gray :: "int ndarray" where
  "example_gray = \<lparr>shape = [1, 2, 1], ravel = [10, 20]\<rparr>"

definition example_array :: "int ndarray" where
  "example_array = \<lparr>shape = [1, 2, 3], ravel = [0, 255, 256, -1, 7, 300]\<rparr>"

definition example_rgba :: "int ndarray" where
  "example_rgba = \<lparr>shape = [1, 1, 4], ravel = [1, 2, 3, 4]\<rparr>"

definition example_two_channels :: "int ndarray" where
  "example_two_channels = \<lparr>shape = [1, 1, 2], ravel = [1, 2]\<rparr>"

definition example_2d :: "int ndarray" where
  "example_2d = \<lparr>shape = [2, 2], ravel = [1, 2, 3, 4]\<rparr>"

definition example_batch :: "int ndarray" where
  "example_batch = \<lparr>shape = [1, 1, 1, 3], ravel = [1, 2, 3]\<rparr>"

text \<open>
  Rows with three bytes of data: \<open>short_row\<close> declares \<open>2 * 2 * 1\<close> bytes,
  \<open>long_row\<close> declares \<open>1 * 2 * 1\<close>, and \<open>long_row_renamed\<close> is \<open>long_row\<close> with
  another origin and mode.
\<close>

definition short_row :: row where
  "short_row = create_row image_field_names
     [PyStr ''a.png'', PyInt 2, PyInt 2, PyInt 1, PyInt 0, PyBytes [1, 2, 3]]"

definition long_row :: row where
  "long_row = create_row image_field_names
     [PyStr ''b.png'', PyInt 1, PyInt 2, PyInt 1, PyInt 16, PyBytes [1, 2, 3]]"

definition long_row_renamed :: row where
  "long_row_renamed = create_row image_field_names
     [PyStr ''elsewhere'', PyInt 1, PyInt 2, PyInt 1, PyInt 24, PyBytes [1, 2, 3]]"

text \<open>
  A row that declares \<open>2 * 2 * 1\<close> bytes and has none, and the row with alphabetical
  field names that the values of \<open>example_gray\<close> make.
\<close>

definition empty_row :: row where
  "empty_row = create_row image_field_names
     [PyStr ''c.png'', PyInt 2, PyInt 2, PyInt 1, PyInt 0, PyBytes []]"

definition alphabetical_row :: row where
  "alphabetical_row = create_row
     [''data'', ''height'', ''mode'', ''nChannels'', ''origin'', ''width'']
     [PyStr ''a.png'', PyInt 1, PyInt 2, PyInt 1, PyInt 0, PyBytes [10, 20]]"

section \<open>Properties\<close>

subsection \<open>A view with row-major strides is a prefix of the buffer\<close>

lemma map_nth_offset:
  "b + c \<le> length xs \<Longrightarrow> map (\<lambda>k. xs ! (b + k)) [0..<c] = take c (drop b xs)"
  by (rule nth_equalityI) auto

lemma concat_take_drop:
  "concat (map (\<lambda>j. take c (drop (b + j * c) xs)) [0..<n]) = take (n * c) (drop b xs)"
proof (induction n)
  case 0
  then show ?case by simp
next
  case (Suc n)
  have "Suc n * c = n * c + c"
    by simp
  then have "take (Suc n * c) (drop b xs) = take (n * c + c) (drop b xs)"
    by (rule arg_cong)
  also have "\<dots> = take (n * c) (drop b xs) @ take c (drop (n * c) (drop b xs))"
    by (rule take_add)
  also have "drop (n * c) (drop b xs) = drop (b + n * c) xs"
    by (simp add: add.commute)
  finally show ?case using Suc.IH by simp
qed

lemma view_elems_contiguous:
  assumes "d0 * d1 * d2 \<le> length buf"
  shows "view_elems buf d0 d1 d2 (int d1 * int d2) (int d2) 1 = take (d0 * d1 * d2) buf"
proof -
  have inner: "map (\<lambda>k. buf ! nat (int i * (int d1 * int d2) + int j * int d2 + int k * 1)) [0..<d2]
      = take d2 (drop (i * (d1 * d2) + j * d2) buf)" if "i < d0" "j < d1" for i j
  proof -
    have "i * (d1 * d2) + j * d2 + d2 \<le> d0 * d1 * d2"
    proof -
      have "Suc j * d2 \<le> d1 * d2"
        using that by (intro mult_le_mono1) simp
      then have "i * (d1 * d2) + (j + 1) * d2 \<le> i * (d1 * d2) + d1 * d2"
        by simp
      also have "\<dots> = (i + 1) * (d1 * d2)" by simp
      also have "\<dots> \<le> d0 * (d1 * d2)"
        using that by (intro mult_le_mono1) simp
      finally show ?thesis by (simp add: mult.assoc)
    qed
    then have le: "i * (d1 * d2) + j * d2 + d2 \<le> length buf" using assms by simp
    have "nat (int i * (int d1 * int d2) + int j * int d2 + int k * 1) = i * (d1 * d2) + j * d2 + k" for k
      by (simp add: nat_add_distrib nat_mult_distrib)
    then show ?thesis using map_nth_offset [OF le] by simp
  qed
  have mid: "concat (map (\<lambda>j. map (\<lambda>k. buf ! nat (int i * (int d1 * int d2) + int j * int d2 + int k * 1)) [0..<d2]) [0..<d1])
      = take (d1 * d2) (drop (i * (d1 * d2)) buf)" if "i < d0" for i
  proof -
    have "concat (map (\<lambda>j. map (\<lambda>k. buf ! nat (int i * (int d1 * int d2) + int j * int d2 + int k * 1)) [0..<d2]) [0..<d1])
      = concat (map (\<lambda>j. take d2 (drop (i * (d1 * d2) + j * d2) buf)) [0..<d1])"
      using inner [OF that] by (intro arg_cong [where f = concat] map_cong) auto
    then show ?thesis by (simp add: concat_take_drop)
  qed
  have "view_elems buf d0 d1 d2 (int d1 * int d2) (int d2) 1
      = concat (map (\<lambda>i. take (d1 * d2) (drop (0 + i * (d1 * d2)) buf)) [0..<d0])"
    unfolding view_elems_def using mid
    by (intro arg_cong [where f = concat] map_cong) auto
  also have "\<dots> = take (d0 * (d1 * d2)) (drop 0 buf)"
    by (rule concat_take_drop)
  finally show ?thesis by (simp add: mult.assoc)
qed

subsection \<open>Sizes within the range of npy_intp\<close>

lemma intp_id: "fits_intp x \<Longrightarrow> intp x = x"
  by (simp add: fits_intp_def intp_def)

lemma prod3_mono:
  fixes a b c :: int
  assumes "0 \<le> a" "a \<le> A" "0 \<le> b" "b \<le> B" "0 \<le> c" "c \<le> C"
  shows "a * b * c \<le> A * B * C"
proof -
  have "a * b \<le> A * B" using assms by (intro mult_mono) auto
  moreover have "0 \<le> a * b" using assms by simp
  moreover have "0 \<le> A * B" using assms by simp
  ultimately show ?thesis using assms by (intro mult_mono) auto
qed

lemma sub_fits:
  assumes "size_fits h w c" "0 \<le> a" "a \<le> max 1 h" "0 \<le> b" "b \<le> max 1 w" "0 \<le> d" "d \<le> max 1 c"
  shows "fits_intp (a * b * d)"
proof -
  have "a * b * d \<le> max 1 h * max 1 w * max 1 c"
    using assms(2-7) by (rule prod3_mono)
  moreover have "0 \<le> a * b * d" using assms by simp
  ultimately show ?thesis using assms(1) by (simp add: fits_intp_def size_fits_def)
qed

lemma intp_0: "intp 0 = 0"
  by (simp add: intp_def)

lemma offset_bounds_exact:
  assumes "length dims = length strides"
    and "\<forall>d \<in> set dims. 1 \<le> d \<and> d < 2 ^ 63" and "\<forall>st \<in> set strides. 0 \<le> st"
    and "0 \<le> upper"
    and "upper + (\<Sum>(d, st) \<leftarrow> zip dims strides. st * (d - 1)) + 1 < 2 ^ 63"
  shows "offset_bounds_from_strides dims strides 0 upper =
    (0, upper + (\<Sum>(d, st) \<leftarrow> zip dims strides. st * (d - 1)) + 1)"
  using assms
proof (induction dims strides arbitrary: upper rule: list_induct2)
  case Nil
  then show ?case by (simp add: intp_id fits_intp_def)
next
  case (Cons d dims st strides)
  define m where "m = st * (d - 1)"
  define rest where "rest = (\<Sum>(d, st) \<leftarrow> zip dims strides. st * (d - 1))"
  have d: "1 \<le> d" "d < 2 ^ 63" and st: "0 \<le> st" using Cons.prems by auto
  have rest: "0 \<le> rest"
    unfolding rest_def
  proof (rule sum_list_nonneg)
    fix x assume "x \<in> set (map (\<lambda>(d, st). st * (d - 1)) (zip dims strides))"
    then obtain a b where ab: "(a, b) \<in> set (zip dims strides)" and x: "x = b * (a - 1)"
      by auto
    from ab have "a \<in> set dims" and "b \<in> set strides"
      by (auto dest: set_zip_leftD set_zip_rightD)
    then have "1 \<le> a" and "0 \<le> b" using Cons.prems(1,2) by auto
    then show "0 \<le> x" using x by simp
  qed
  have m: "0 \<le> m" using d st by (simp add: m_def)
  have total: "upper + m + rest + 1 < 2 ^ 63"
    using Cons.prems(4) by (simp add: m_def rest_def add.assoc)
  have d1: "intp (d - 1) = d - 1"
    using d by (intro intp_id) (simp add: fits_intp_def)
  have im: "intp m = m"
    using m rest total Cons.prems(3) by (intro intp_id) (simp add: fits_intp_def)
  have ium: "intp (upper + m) = upper + m"
    using m rest total Cons.prems(3) by (intro intp_id) (simp add: fits_intp_def)
  have step: "offset_bounds_from_strides (d # dims) (st # strides) 0 upper =
      (if 0 < intp m then offset_bounds_from_strides dims strides 0 (intp (upper + intp m))
       else offset_bounds_from_strides dims strides (intp (0 + intp m)) upper)"
    using d(1) unfolding m_def by (simp add: d1)
  have ih: "offset_bounds_from_strides dims strides 0 (upper + m) = (0, upper + m + rest + 1)"
    unfolding rest_def
    using Cons.prems(1,2,3) m total unfolding rest_def by (intro Cons.IH) auto
  have "offset_bounds_from_strides (d # dims) (st # strides) 0 upper = (0, upper + m + rest + 1)"
  proof (cases "0 < m")
    case True
    then show ?thesis using ih by (simp only: step im ium if_True)
  next
    case False
    then have "m = 0" using m by simp
    then show ?thesis using ih by (simp only: step) (simp add: intp_0)
  qed
  then show ?case by (simp add: m_def rest_def add.assoc)
qed

lemma offset_upper:
  assumes "1 \<le> h" "1 \<le> w" "1 \<le> c" "h * w * c < 2 ^ 63"
  shows "offset_bounds_from_strides [h, w, c] [w * c, c, 1] 0 0 = (0, h * w * c)"
proof -
  have total: "w * c * (h - 1) + (c * (w - 1) + (c - 1)) + 1 = h * w * c"
    by (simp add: algebra_simps)
  have le: "h * 1 * 1 \<le> h * w * c" "1 * w * 1 \<le> h * w * c" "1 * 1 * c \<le> h * w * c"
    using assms(1-3) by (intro prod3_mono; simp)+
  have "h * 1 * 1 < 2 ^ 63" "1 * w * 1 < 2 ^ 63" "1 * 1 * c < 2 ^ 63"
    using le assms(4) by (blast intro: le_less_trans)+
  then have lt: "h < 2 ^ 63" "w < 2 ^ 63" "c < 2 ^ 63"
    by simp_all
  have "offset_bounds_from_strides [h, w, c] [w * c, c, 1] 0 0 =
    (0, 0 + (\<Sum>(d, st) \<leftarrow> zip [h, w, c] [w * c, c, 1]. st * (d - 1)) + 1)"
    using assms lt total by (intro offset_bounds_exact) auto
  then show ?thesis using total by simp
qed

lemma offset_empty:
  assumes "0 \<le> h" "0 \<le> w" "0 \<le> c" "h = 0 \<or> w = 0 \<or> c = 0"
  shows "offset_bounds_from_strides [h, w, c] [w * c, c, 1] 0 0 = (0, 0)"
  using assms by (auto simp: intp_0)

lemma MultiplyList_exact:
  assumes "0 \<le> h" "0 \<le> w" "0 \<le> c" "size_fits h w c"
  shows "MultiplyList [h, w, c] 1 = h * w * c"
proof -
  have "fits_intp (h * 1 * 1)" "fits_intp (h * w * 1)" "fits_intp (h * w * c)"
    using assms by (intro sub_fits [of h w c]; simp)+
  then show ?thesis by (simp add: intp_id)
qed

lemma check_dims_ok:
  assumes "0 \<le> h" "0 \<le> w" "0 \<le> c" "size_fits h w c"
  shows "\<exists>n. check_dims [h, w, c] 1 = Inr n"
proof -
  have "fits_intp (h * 1 * 1)" "fits_intp (h * w * 1)" "fits_intp (h * w * c)"
    "fits_intp (1 * w * 1)" "fits_intp (1 * w * c)" "fits_intp (h * 1 * c)" "fits_intp (1 * 1 * c)"
    using assms by (intro sub_fits [of h w c]; simp)+
  then show ?thesis using assms(1-3) by auto
qed

lemma strides_fit:
  assumes "0 \<le> h" "0 \<le> w" "0 \<le> c" "size_fits h w c"
  shows "fits_intp h" "fits_intp w" "fits_intp c" "fits_intp (w * c)" "fits_intp 1"
proof -
  have "fits_intp (h * 1 * 1)" "fits_intp (1 * w * 1)" "fits_intp (1 * 1 * c)" "fits_intp (1 * w * c)"
    using assms by (intro sub_fits [of h w c]; simp)+
  then show "fits_intp h" "fits_intp w" "fits_intp c" "fits_intp (w * c)" by simp_all
  show "fits_intp 1" by (simp add: fits_intp_def)
qed

subsection \<open>The constructor on row-major strides\<close>

lemma CheckStrides_contiguous:
  assumes "0 \<le> h" "0 \<le> w" "0 \<le> c" "size_fits h w c"
    and "h * w * c \<le> int (length buf) \<or> buf = []"
  shows "CheckStrides (int (length buf)) [h, w, c] [w * c, c, 1]"
proof (cases "h = 0 \<or> w = 0 \<or> c = 0")
  case True
  then have "offset_bounds_from_strides [h, w, c] [w * c, c, 1] 0 0 = (0, 0)"
    using assms(1-3) by (intro offset_empty)
  moreover have "MultiplyList [h, w, c] 1 = 0"
    using MultiplyList_exact [OF assms(1-4)] True by auto
  ultimately show ?thesis
    by (simp add: CheckStrides_def Let_def)
next
  case False
  then have pos: "1 \<le> h" "1 \<le> w" "1 \<le> c" using assms by auto
  then have lt: "h * w * c < 2 ^ 63"
    using assms(4) by (simp add: size_fits_def max_def)
  have "offset_bounds_from_strides [h, w, c] [w * c, c, 1] 0 0 = (0, h * w * c)"
    using pos lt by (rule offset_upper)
  then show ?thesis
    using assms(5) MultiplyList_exact [OF assms(1-4)]
    by (auto simp: CheckStrides_def Let_def)
qed

lemma CheckStrides_too_small:
  assumes "0 \<le> h" "0 \<le> w" "0 \<le> c" "size_fits h w c"
    and "buf \<noteq> []" "int (length buf) < h * w * c"
  shows "\<not> CheckStrides (int (length buf)) [h, w, c] [w * c, c, 1]"
proof -
  have "h \<noteq> 0" "w \<noteq> 0" "c \<noteq> 0" using assms by auto
  then have pos: "1 \<le> h" "1 \<le> w" "1 \<le> c" using assms by auto
  then have lt: "h * w * c < 2 ^ 63"
    using assms(4) by (simp add: size_fits_def max_def)
  have "offset_bounds_from_strides [h, w, c] [w * c, c, 1] 0 0 = (0, h * w * c)"
    using pos lt by (rule offset_upper)
  then show ?thesis using assms(5,6)
    by (simp add: CheckStrides_def Let_def)
qed

lemma np_ndarray_view:
  assumes "0 \<le> h" "0 \<le> w" "0 \<le> c" "size_fits h w c"
    and "h * w * c \<le> int (length buf) \<or> buf = []"
  shows "np_ndarray (h, w, c) buf (w * c, c, 1) =
    Inr \<lparr>shape = [nat h, nat w, nat c],
         ravel = view_elems buf (nat h) (nat w) (nat c) (w * c) c 1\<rparr>"
proof -
  obtain n where "check_dims [h, w, c] 1 = Inr n"
    using check_dims_ok [OF assms(1-4)] by blast
  then show ?thesis
    using strides_fit [OF assms(1-4)] CheckStrides_contiguous [OF assms]
    by (simp add: np_ndarray_def)
qed

lemma np_ndarray_contiguous:
  assumes "0 \<le> h" "0 \<le> w" "0 \<le> c" "size_fits h w c" "h * w * c \<le> int (length buf)"
  shows "np_ndarray (h, w, c) buf (w * c, c, 1) =
    Inr \<lparr>shape = [nat h, nat w, nat c], ravel = take (nat (h * w * c)) buf\<rparr>"
proof -
  have n: "nat (h * w * c) = nat h * nat w * nat c"
    using assms by (simp add: nat_mult_distrib)
  then have "nat h * nat w * nat c \<le> length buf" using assms by linarith
  then have "view_elems buf (nat h) (nat w) (nat c) (int (nat w) * int (nat c)) (int (nat c)) 1
     = take (nat h * nat w * nat c) buf"
    by (rule view_elems_contiguous)
  then have "view_elems buf (nat h) (nat w) (nat c) (w * c) c 1 = take (nat (h * w * c)) buf"
    using assms n by simp
  then show ?thesis
    using np_ndarray_view [OF assms(1-4), of buf] assms(5) by simp
qed

lemma np_ndarray_too_small:
  assumes "0 \<le> h" "0 \<le> w" "0 \<le> c" "size_fits h w c"
    and "buf \<noteq> []" "int (length buf) < h * w * c"
  shows "np_ndarray (h, w, c) buf (w * c, c, 1) =
    Inl (ValueError ''strides is incompatible with shape of requested array and size of buffer'')"
  using CheckStrides_too_small [OF assms] strides_fit [OF assms(1-4)]
  by (simp add: np_ndarray_def)

lemma toNDArray_fields:
  assumes "getattr r ''height'' = Inr (PyInt h)" "getattr r ''width'' = Inr (PyInt w)"
    "getattr r ''nChannels'' = Inr (PyInt c)" "getattr r ''data'' = Inr (PyBytes d)"
  shows "toNDArray r = np_ndarray (h, w, c) d (w * c, c, 1)"
  using assms by (simp add: toNDArray_def bind_def as_int_def as_buffer_def)

subsection \<open>What a call of toImage does\<close>

lemma getattr_image_row:
  "getattr (create_row image_field_names [v0, v1, v2, v3, v4, v5]) ''origin'' = Inr v0"
  "getattr (create_row image_field_names [v0, v1, v2, v3, v4, v5]) ''height'' = Inr v1"
  "getattr (create_row image_field_names [v0, v1, v2, v3, v4, v5]) ''width'' = Inr v2"
  "getattr (create_row image_field_names [v0, v1, v2, v3, v4, v5]) ''nChannels'' = Inr v3"
  "getattr (create_row image_field_names [v0, v1, v2, v3, v4, v5]) ''mode'' = Inr v4"
  "getattr (create_row image_field_names [v0, v1, v2, v3, v4, v5]) ''data'' = Inr v5"
  by (simp_all add: getattr_def create_row_def image_field_names_def)

lemma toImage_Inr:
  assumes "toImage s a oa = (Inr r, s')"
  shows "\<exists>types m names. ndim a = 3 \<and> fst (ocvTypes s) = Inr types
     \<and> (shape a ! 2 = 1 \<and> types ''CV_8UC1'' = Some m \<or> shape a ! 2 = 3 \<and> types ''CV_8UC3'' = Some m
        \<or> shape a ! 2 = 4 \<and> types ''CV_8UC4'' = Some m)
     \<and> fst (imageFields (snd (ocvTypes s))) = Inr names
     \<and> s' = snd (imageFields (snd (ocvTypes s)))
     \<and> r = create_row names [PyStr (case oa of None \<Rightarrow> '''' | Some g \<Rightarrow> g),
          PyInt (int (shape a ! 0)), PyInt (int (shape a ! 1)), PyInt (int (shape a ! 2)),
          PyInt m, PyBytes (map word_of_int (ravel a))]"
  using assms
  by (auto simp: toImage_def Let_def getitem_def bytearray_def astype_uint8_def
      split: if_splits prod.splits sum.splits option.splits)

lemma imageFields_after_ocvTypes:
  "fst (imageFields (snd (ocvTypes s))) = fst (imageFields s)"
  by (simp add: imageFields_def ocvTypes_def jvm_imageFields_def jvm_ocvTypes_def
      split: option.splits prod.splits reply.splits)

lemma toImage_success:
  assumes "ndim a = 3" and "fst (ocvTypes s) = Inr types"
    and "(if shape a ! 2 = 1 then types ''CV_8UC1'' else if shape a ! 2 = 3 then types ''CV_8UC3''
          else if shape a ! 2 = 4 then types ''CV_8UC4'' else None) = Some m"
    and "fst (imageFields s) = Inr names"
  shows "toImage s a oa =
    (Inr (create_row names [PyStr (case oa of None \<Rightarrow> '''' | Some g \<Rightarrow> g),
          PyInt (int (shape a ! 0)), PyInt (int (shape a ! 1)), PyInt (int (shape a ! 2)),
          PyInt m, PyBytes (map word_of_int (ravel a))]),
     snd (imageFields (snd (ocvTypes s))))"
proof -
  obtain s1 where s1: "ocvTypes s = (Inr types, s1)"
    using assms(2) by (cases "ocvTypes s") simp
  have "fst (imageFields s1) = Inr names"
    using imageFields_after_ocvTypes [of s] s1 assms(4) by simp
  then obtain s2 where s2: "imageFields s1 = (Inr names, s2)"
    by (cases "imageFields s1") simp
  show ?thesis using assms(1,3) s1 s2
    by (auto simp: toImage_def Let_def getitem_def bytearray_def astype_uint8_def
        split: if_splits)
qed

lemma read_errors:
  "fst (ocvTypes s) = Inl e \<Longrightarrow> \<exists>msg. e = EngineError msg"
  "fst (imageFields s) = Inl e \<Longrightarrow> \<exists>msg. e = EngineError msg"
  by (auto simp: ocvTypes_def imageFields_def split: option.splits prod.splits reply.splits)

lemma toImage_Inl:
  assumes "ndim a = 3" and "fst (toImage s a oa) = Inl e"
  shows "(\<exists>msg. e = EngineError msg) \<or> (\<exists>k. e = KeyError k)
    \<or> e = ValueError ''Invalid number of channels''"
proof (cases "ocvTypes s")
  case (Pair r1 s1)
  show ?thesis
  proof (cases r1)
    case (Inl e1)
    then show ?thesis using assms Pair read_errors(1) [of s e1]
      by (simp add: toImage_def)
  next
    case (Inr types)
    show ?thesis
    proof (cases "imageFields s1")
      case (Pair r2 s2)
      have "r2 = Inl e \<Longrightarrow> \<exists>msg. e = EngineError msg"
        using read_errors(2) [of s1 e] Pair by simp
      then show ?thesis using assms Inr \<open>ocvTypes s = (r1, s1)\<close> Pair
        by (auto simp: toImage_def Let_def getitem_def split: if_splits option.splits sum.splits)
    qed
  qed
qed

lemma toImage_state:
  "snd (toImage s a oa) = s \<or> snd (toImage s a oa) = snd (ocvTypes s)
   \<or> snd (toImage s a oa) = snd (imageFields (snd (ocvTypes s)))"
  by (simp add: toImage_def Let_def split: prod.splits sum.splits)

subsection \<open>The concrete inputs\<close>

lemma pair_of_fst: "fst p = x \<Longrightarrow> p = (x, snd p)"
  by (cases p) simp

lemma example_ocvTypes: "fst (ocvTypes (module_load example_engine)) = Inr example_types"
  by (simp add: ocvTypes_def module_load_def init_def jvm_ocvTypes_def example_engine_def)

lemma example_imageFields: "fst (imageFields (module_load example_engine)) = Inr image_field_names"
  by (simp add: imageFields_def module_load_def init_def jvm_imageFields_def example_engine_def)

lemma alphabetical_reads:
  "fst (ocvTypes (module_load alphabetical_engine)) = Inr example_types"
  "fst (imageFields (module_load alphabetical_engine)) =
     Inr [''data'', ''height'', ''mode'', ''nChannels'', ''origin'', ''width'']"
  by (simp_all add: ocvTypes_def imageFields_def module_load_def init_def jvm_ocvTypes_def
      jvm_imageFields_def example_engine_def alphabetical_engine_def)

lemma example_run:
  assumes "ndim a = 3"
    and "(if shape a ! 2 = 1 then example_types ''CV_8UC1'' else if shape a ! 2 = 3 then example_types ''CV_8UC3''
          else if shape a ! 2 = 4 then example_types ''CV_8UC4'' else None) = Some m"
  shows "toImage (module_load example_engine) a oa =
     (Inr (create_row image_field_names [PyStr (case oa of None \<Rightarrow> '''' | Some g \<Rightarrow> g),
          PyInt (int (shape a ! 0)), PyInt (int (shape a ! 1)), PyInt (int (shape a ! 2)),
          PyInt m, PyBytes (map word_of_int (ravel a))]),
      snd (toImage (module_load example_engine) a oa))"
  by (rule pair_of_fst)
     (simp add: toImage_success [OF assms(1) example_ocvTypes assms(2) example_imageFields])

lemma example_array_row:
  "fst (toImage (module_load example_engine) example_array None) =
     Inr (create_row image_field_names
        [PyStr '''', PyInt 1, PyInt 2, PyInt 3, PyInt 16, PyBytes [0, 255, 0, 255, 7, 44]])"
proof -
  have nd: "ndim example_array = 3"
    by (simp add: ndim_def example_array_def)
  have m: "(if shape example_array ! 2 = 1 then example_types ''CV_8UC1''
      else if shape example_array ! 2 = 3 then example_types ''CV_8UC3''
      else if shape example_array ! 2 = 4 then example_types ''CV_8UC4'' else None) = Some 16"
    by (simp add: example_array_def example_types_def)
  show ?thesis
    using toImage_success [OF nd example_ocvTypes m example_imageFields, of None]
    by (simp add: example_array_def create_row_def)
qed

lemmas example_array_run = pair_of_fst [OF example_array_row]

subsection \<open>The cached properties\<close>

lemmas property_defs = imageSchema_def ocvTypes_def imageFields_def undefinedImageType_def
  jvm_imageSchema_def jvm_ocvTypes_def jvm_imageFields_def jvm_undefinedImageType_def

lemma read_cached:
  "cached p s = Some v \<Longrightarrow> read_property p s = (Inr v, s)"
  by (cases p) (auto simp: property_defs)

lemma read_unset:
  assumes "cached p s = None"
  shows "fst (read_property p s) = raised (reply_at p s (fetches p s))"
    and "fetches p (snd (read_property p s)) = Suc (fetches p s)"
    and "cached p (snd (read_property p s)) =
      (case reply_at p s (fetches p s) of Fails msg \<Rightarrow> None | Returns v \<Rightarrow> Some v)"
  using assms
  by (cases p; simp add: property_defs raised_def split: reply.splits)+

lemma read_replies: "reply_at q (snd (read_property p s)) n = reply_at q s n"
  by (cases p; cases q; simp add: property_defs split: option.splits reply.splits)

lemma read_other:
  "q \<noteq> p \<Longrightarrow> cached q (snd (read_property p s)) = cached q s"
  "q \<noteq> p \<Longrightarrow> fetches q (snd (read_property p s)) = fetches q s"
  by (cases p; cases q; simp add: property_defs split: option.splits reply.splits)+

lemma read_keeps_cached:
  "cached q s = Some v \<Longrightarrow> cached q (snd (read_property p s)) = Some v"
  by (cases "q = p") (simp_all add: read_cached read_other)

lemma toImage_keeps_cached:
  assumes "cached q s = Some u"
  shows "cached q (snd (toImage s a oa)) = Some u"
proof -
  have 1: "cached q (snd (ocvTypes s)) = Some u"
    using read_keeps_cached [OF assms, of Field_ocvTypes] by simp
  then have "cached q (snd (imageFields (snd (ocvTypes s)))) = Some u"
    using read_keeps_cached [of q "snd (ocvTypes s)" u Field_imageFields] by simp
  with 1 assms show ?thesis
    using toImage_state [of s a oa] by auto
qed

subsection \<open>The constructor after loading\<close>

lemma class_init_kept:
  "class_init (snd (imageSchema s)) = class_init s"
  "class_init (snd (ocvTypes s)) = class_init s"
  "class_init (snd (imageFields s)) = class_init s"
  "class_init (snd (undefinedImageType s)) = class_init s"
  "class_init (snd (construct s)) = class_init s"
  by (simp_all add: property_defs construct_def
      split: option.splits prod.splits reply.splits init_fn.splits)

lemma class_init_toImage: "class_init (snd (toImage s a oa)) = class_init s"
  using toImage_state [of s a oa] by (auto simp: class_init_kept)

lemma reachable_class_init: "reachable s \<Longrightarrow> class_init s = disallow_instance"
  by (induction rule: reachable.induct)
     (simp_all add: class_init_kept class_init_toImage module_load_def)

section \<open>The claims\<close>

subsection \<open>C1: round trip\<close>

text \<open>
  C1. Let \<open>A\<close> be an array of integers of shape \<open>(h, w, c)\<close> with \<open>c\<close> one of 1, 3 and
  4 (a shape numpy can hold, as that of every array it has made), and let the accessor be
  able to read an encoding map that has the three 8-bit entries and the field names in the
  order of the schema. Then \<open>toImage\<close> returns a row, and
  \<open>toNDArray\<close> of that row is \<open>A\<close> cast to unsigned 8-bit, with the shape
  \<open>(h, w, c)\<close>.
\<close>

theorem toImage_toNDArray_roundtrip:
  assumes "wf_ndarray A" and "shape A = [h, w, c]" and "c \<in> {1, 3, 4}"
    and "fst (ocvTypes s) = Inr types"
    and "{''CV_8UC1'', ''CV_8UC3'', ''CV_8UC4''} \<subseteq> dom types"
    and "fst (imageFields s) = Inr image_field_names"
    and "size_fits (int h) (int w) (int c)"
  shows "\<exists>r s'. toImage s A origin_arg = (Inr r, s')
     \<and> toNDArray r = Inr (astype_uint8 A) \<and> shape (astype_uint8 A) = [h, w, c]"
proof -
  have nd: "ndim A = 3" using assms(2) by (simp add: ndim_def)
  obtain m where m: "(if shape A ! 2 = 1 then types ''CV_8UC1'' else if shape A ! 2 = 3 then types ''CV_8UC3''
          else if shape A ! 2 = 4 then types ''CV_8UC4'' else None) = Some m"
    using assms(2,3,5) by auto
  let ?d = "map word_of_int (ravel A) :: u8 list"
  let ?r = "create_row image_field_names [PyStr (case origin_arg of None \<Rightarrow> '''' | Some g \<Rightarrow> g),
          PyInt (int h), PyInt (int w), PyInt (int c), PyInt m, PyBytes ?d]"
  have t: "toImage s A origin_arg = (Inr ?r, snd (imageFields (snd (ocvTypes s))))"
    using toImage_success [OF nd assms(4) m assms(6), of origin_arg] assms(2) by simp
  have len: "int h * int w * int c = int (length ?d)"
    using assms(1,2) by (simp add: wf_ndarray_def)
  have "toNDArray ?r = np_ndarray (int h, int w, int c) ?d (int w * int c, int c, 1)"
    by (rule toNDArray_fields) (rule getattr_image_row)+
  also have "\<dots> = Inr \<lparr>shape = [nat (int h), nat (int w), nat (int c)],
      ravel = take (nat (int h * int w * int c)) ?d\<rparr>"
    using assms(7) by (intro np_ndarray_contiguous) (simp_all add: len)
  also have "\<dots> = Inr (astype_uint8 A)"
    using assms(2) by (simp add: len astype_uint8_def)
  finally show ?thesis using t assms(2) by (simp add: astype_uint8_def)
qed

theorem toImage_toNDArray_roundtrip_witness:
  "wf_ndarray example_array \<and> shape example_array = [1, 2, 3]
   \<and> (\<exists>r s'. toImage (module_load example_engine) example_array None = (Inr r, s')
        \<and> toNDArray r = Inr \<lparr>shape = [1, 2, 3], ravel = [0, 255, 0, 255, 7, 44]\<rparr>)"
proof -
  have wf: "wf_ndarray example_array" and sh: "shape example_array = [1, 2, 3]"
    by (simp_all add: wf_ndarray_def example_array_def)
  have c: "(3::nat) \<in> {1, 3, 4}" by simp
  have keys: "{''CV_8UC1'', ''CV_8UC3'', ''CV_8UC4''} \<subseteq> dom example_types"
    by (simp add: example_types_def)
  have cast: "astype_uint8 example_array = \<lparr>shape = [1, 2, 3], ravel = [0, 255, 0, 255, 7, 44]\<rparr>"
    by (simp add: astype_uint8_def example_array_def)
  have size: "size_fits (int 1) (int 2) (int 3)"
    by (simp add: size_fits_def)
  show ?thesis
    using toImage_toNDArray_roundtrip [OF wf sh c example_ocvTypes keys example_imageFields size, of None]
      wf sh cast by simp
qed

subsection \<open>C2: the mode follows the number of channels\<close>

text \<open>
  C2. For a three-dimensional array and an encoding map \<open>types\<close> that the accessor can
  read, the row that \<open>toImage\<close> returns has as its mode (the fifth value) the entry of
  \<open>types\<close> for \<^verbatim>\<open>CV_8UC1\<close> when the third dimension is 1, for \<^verbatim>\<open>CV_8UC3\<close> when
  it is 3 and for \<^verbatim>\<open>CV_8UC4\<close> when it is 4; for every other size of the third
  dimension the call raises \<^verbatim>\<open>ValueError("Invalid number of channels")\<close>.
\<close>

theorem toImage_channel_mode:
  assumes "ndim A = 3" and "fst (ocvTypes s) = Inr types"
  shows "(shape A ! 2 = 1 \<and> toImage s A origin_arg = (Inr r, s') \<longrightarrow>
            map_option PyInt (types ''CV_8UC1'') = Some (row_values r ! 4))
       \<and> (shape A ! 2 = 3 \<and> toImage s A origin_arg = (Inr r, s') \<longrightarrow>
            map_option PyInt (types ''CV_8UC3'') = Some (row_values r ! 4))
       \<and> (shape A ! 2 = 4 \<and> toImage s A origin_arg = (Inr r, s') \<longrightarrow>
            map_option PyInt (types ''CV_8UC4'') = Some (row_values r ! 4))
       \<and> (shape A ! 2 \<notin> {1, 3, 4} \<longrightarrow>
            fst (toImage s A origin_arg) = Inl (ValueError ''Invalid number of channels''))"
proof -
  have other: "fst (toImage s A origin_arg) = Inl (ValueError ''Invalid number of channels'')"
    if "shape A ! 2 \<notin> {1, 3, 4}"
  proof -
    obtain s1 where "ocvTypes s = (Inr types, s1)"
      using assms(2) by (cases "ocvTypes s") simp
    then show ?thesis using assms(1) that by (simp add: toImage_def)
  qed
  have ok: "\<exists>m. (shape A ! 2 = 1 \<and> types ''CV_8UC1'' = Some m \<or> shape A ! 2 = 3 \<and> types ''CV_8UC3'' = Some m
        \<or> shape A ! 2 = 4 \<and> types ''CV_8UC4'' = Some m) \<and> row_values r ! 4 = PyInt m"
    if "toImage s A origin_arg = (Inr r, s')"
    using toImage_Inr [OF that] assms(2) by (auto simp: create_row_def)
  show ?thesis using other ok by auto
qed

theorem toImage_channel_mode_witness:
  "(\<exists>r s'. toImage (module_load example_engine) example_gray None = (Inr r, s')
        \<and> row_values r ! 4 = PyInt 0)
   \<and> (\<exists>r s'. toImage (module_load example_engine) example_array None = (Inr r, s')
        \<and> row_values r ! 4 = PyInt 16)
   \<and> (\<exists>r s'. toImage (module_load example_engine) example_rgba None = (Inr r, s')
        \<and> row_values r ! 4 = PyInt 24)
   \<and> fst (toImage (module_load example_engine) example_two_channels None)
        = Inl (ValueError ''Invalid number of channels'')"
proof -
  let ?s = "module_load example_engine"
  have nd: "ndim example_gray = 3" "ndim example_array = 3" "ndim example_rgba = 3"
    "ndim example_two_channels = 3"
    by (simp_all add: ndim_def example_gray_def example_array_def example_rgba_def
        example_two_channels_def)
  have ch: "shape example_gray ! 2 = 1" "shape example_array ! 2 = 3" "shape example_rgba ! 2 = 4"
    "shape example_two_channels ! 2 = 2"
    by (simp_all add: example_gray_def example_array_def example_rgba_def
        example_two_channels_def)
  have ty: "example_types ''CV_8UC1'' = Some 0" "example_types ''CV_8UC3'' = Some 16"
    "example_types ''CV_8UC4'' = Some 24"
    by (simp_all add: example_types_def)
  have run1: "\<exists>r s'. toImage ?s example_gray None = (Inr r, s')"
    using example_run [OF nd(1), of 0 None] ch ty by auto
  have run3: "\<exists>r s'. toImage ?s example_array None = (Inr r, s')"
    using example_run [OF nd(2), of 16 None] ch ty by auto
  have run4: "\<exists>r s'. toImage ?s example_rgba None = (Inr r, s')"
    using example_run [OF nd(3), of 24 None] ch ty by auto
  have 1: "\<exists>r s'. toImage ?s example_gray None = (Inr r, s') \<and> row_values r ! 4 = PyInt 0"
    using run1 toImage_channel_mode [OF nd(1) example_ocvTypes, of None] ch ty by fastforce
  have 3: "\<exists>r s'. toImage ?s example_array None = (Inr r, s') \<and> row_values r ! 4 = PyInt 16"
    using run3 toImage_channel_mode [OF nd(2) example_ocvTypes, of None] ch ty by fastforce
  have 4: "\<exists>r s'. toImage ?s example_rgba None = (Inr r, s') \<and> row_values r ! 4 = PyInt 24"
    using run4 toImage_channel_mode [OF nd(3) example_ocvTypes, of None] ch ty by fastforce
  have 2: "fst (toImage ?s example_two_channels None) = Inl (ValueError ''Invalid number of channels'')"
    using toImage_channel_mode [OF nd(4) example_ocvTypes, of None] ch by simp
  from 1 3 4 2 show ?thesis by blast
qed

subsection \<open>C3: the number of dimensions\<close>

text \<open>
  C3. An array whose number of dimensions is not 3 makes \<open>toImage\<close> raise
  \<^verbatim>\<open>ValueError("Invalid array shape")\<close>, before anything else happens (the state is
  unchanged); on a three-dimensional array \<open>toImage\<close> never raises that error.
\<close>

theorem toImage_shape_validation:
  "(ndim A \<noteq> 3 \<longrightarrow> toImage s A origin_arg = (Inl (ValueError ''Invalid array shape''), s))
   \<and> (ndim A = 3 \<longrightarrow> fst (toImage s A origin_arg) \<noteq> Inl (ValueError ''Invalid array shape''))"
proof (intro conjI impI)
  assume "ndim A \<noteq> 3"
  then show "toImage s A origin_arg = (Inl (ValueError ''Invalid array shape''), s)"
    by (simp add: toImage_def)
next
  assume "ndim A = 3"
  then show "fst (toImage s A origin_arg) \<noteq> Inl (ValueError ''Invalid array shape'')"
    using toImage_Inl [of A s origin_arg "ValueError ''Invalid array shape''"] by auto
qed

theorem toImage_shape_validation_witness:
  "ndim example_2d = 2 \<and> ndim example_batch = 4 \<and> ndim example_array = 3
   \<and> fst (toImage (module_load example_engine) example_2d None) = Inl (ValueError ''Invalid array shape'')
   \<and> fst (toImage (module_load example_engine) example_batch None) = Inl (ValueError ''Invalid array shape'')
   \<and> fst (toImage (module_load example_engine) example_array None) \<noteq> Inl (ValueError ''Invalid array shape'')"
proof -
  have n: "ndim example_2d = 2" "ndim example_batch = 4" "ndim example_array = 3"
    by (simp_all add: ndim_def example_2d_def example_batch_def example_array_def)
  show ?thesis
    using n toImage_shape_validation [of example_2d "module_load example_engine" None]
      toImage_shape_validation [of example_batch "module_load example_engine" None]
      toImage_shape_validation [of example_array "module_load example_engine" None]
    by simp
qed

subsection \<open>C4: the length of the data\<close>

text \<open>
  C4. A row that \<open>toImage\<close> returns for an array has the six values origin, height,
  width, nChannels, mode and data, where height, width and nChannels are the shape of the
  array, and the number of bytes of data is exactly height * width * nChannels.
\<close>

theorem toImage_data_length:
  assumes "wf_ndarray A" and "toImage s A origin_arg = (Inr r, s')"
  shows "\<exists>origin height width nChannels mode data.
      row_values r = [PyStr origin, PyInt height, PyInt width, PyInt nChannels, PyInt mode, PyBytes data]
    \<and> shape A = [nat height, nat width, nat nChannels]
    \<and> int (length data) = height * width * nChannels"
proof -
  from toImage_Inr [OF assms(2)] obtain m names where
    nd: "ndim A = 3" and
    r: "r = create_row names [PyStr (case origin_arg of None \<Rightarrow> '''' | Some g \<Rightarrow> g),
          PyInt (int (shape A ! 0)), PyInt (int (shape A ! 1)), PyInt (int (shape A ! 2)),
          PyInt m, PyBytes (map word_of_int (ravel A))]"
    by blast
  from nd obtain h w c where shp: "shape A = [h, w, c]"
    by (auto simp: ndim_def length_Suc_conv numeral_3_eq_3)
  have "length (ravel A) = h * w * c"
    using assms(1) shp by (simp add: wf_ndarray_def)
  then have "int (length (map word_of_int (ravel A) :: u8 list)) = int h * int w * int c"
    by simp
  then show ?thesis using r shp
    by (simp add: create_row_def)
qed

theorem toImage_data_length_witness:
  "wf_ndarray example_array
   \<and> fst (toImage (module_load example_engine) example_array None) =
       Inr (create_row image_field_names
         [PyStr '''', PyInt 1, PyInt 2, PyInt 3, PyInt 16, PyBytes [0, 255, 0, 255, 7, 44]])
   \<and> int (length [0, 255, 0, 255, 7, 44 :: u8]) = 1 * 2 * 3"
proof -
  have wf: "wf_ndarray example_array"
    by (simp add: wf_ndarray_def example_array_def)
  show ?thesis
    using wf toImage_data_length [OF wf example_array_run] example_array_row
    by simp
qed

subsection \<open>C5: no second instance\<close>

text \<open>
  C5. In every state the module can reach after it is loaded, a call of the constructor
  raises \<^verbatim>\<open>RuntimeError\<close> and leaves the state as it was: no instance is returned
  and no attribute is assigned.
\<close>

theorem construct_disallowed:
  assumes "reachable s"
  shows "construct s =
    (Inl (RuntimeError ''Creating instance of _ImageSchema class is disallowed.''), s)"
  using reachable_class_init [OF assms] by (simp add: construct_def)

theorem construct_disallowed_witness:
  "reachable (snd (ocvTypes (module_load example_engine)))
   \<and> construct (snd (ocvTypes (module_load example_engine))) =
       (Inl (RuntimeError ''Creating instance of _ImageSchema class is disallowed.''),
        snd (ocvTypes (module_load example_engine)))"
proof -
  have r: "reachable (snd (ocvTypes (module_load example_engine)))"
    by (intro reachable.read_ocvTypes reachable.loaded)
  show ?thesis using r construct_disallowed [OF r] by simp
qed

subsection \<open>C6: unset and cached\<close>

text \<open>
  C6. For each of the four properties \<open>p\<close>: a read of a cached value returns it and
  changes nothing, so there is no further fetch; a read of an unset property whose fetch
  succeeds returns the fetched value, caches it with exactly one fetch, and the next read
  returns the same value from the cache; a read whose fetch fails raises the engine's
  error, leaves the property unset, and the next read asks the engine again. A read of
  \<open>p\<close> does not touch another property \<open>q\<close>, and no read, conversion or constructor
  call turns a cached property back into an unset one.
\<close>

theorem metadata_cache_states:
  "(cached p s = Some v \<longrightarrow> read_property p s = (Inr v, s))
   \<and> (cached p s = None \<and> reply_at p s (fetches p s) = Returns x \<longrightarrow>
        fst (read_property p s) = Inr x
      \<and> cached p (snd (read_property p s)) = Some x
      \<and> fetches p (snd (read_property p s)) = Suc (fetches p s)
      \<and> read_property p (snd (read_property p s)) = (Inr x, snd (read_property p s)))
   \<and> (cached p s = None \<and> reply_at p s (fetches p s) = Fails msg \<longrightarrow>
        fst (read_property p s) = Inl (EngineError msg)
      \<and> cached p (snd (read_property p s)) = None
      \<and> fetches p (snd (read_property p s)) = Suc (fetches p s)
      \<and> fst (read_property p (snd (read_property p s))) = raised (reply_at p s (Suc (fetches p s))))
   \<and> (q \<noteq> p \<longrightarrow> cached q (snd (read_property p s)) = cached q s
      \<and> fetches q (snd (read_property p s)) = fetches q s)
   \<and> (cached q s = Some u \<longrightarrow> cached q (snd (read_property p s)) = Some u
      \<and> cached q (snd (toImage s a origin_arg)) = Some u
      \<and> cached q (snd (construct s)) = Some u)"
proof -
  have ok: "fst (read_property p s) = Inr x \<and> cached p (snd (read_property p s)) = Some x
      \<and> fetches p (snd (read_property p s)) = Suc (fetches p s)
      \<and> read_property p (snd (read_property p s)) = (Inr x, snd (read_property p s))"
    if "cached p s = None" "reply_at p s (fetches p s) = Returns x"
  proof -
    have "cached p (snd (read_property p s)) = Some x"
      using read_unset(3) [OF that(1)] that(2) by simp
    then show ?thesis
      using read_unset(1,2) [OF that(1)] that(2) read_cached by (simp add: raised_def)
  qed
  have failed: "fst (read_property p s) = Inl (EngineError msg)
      \<and> cached p (snd (read_property p s)) = None
      \<and> fetches p (snd (read_property p s)) = Suc (fetches p s)
      \<and> fst (read_property p (snd (read_property p s))) = raised (reply_at p s (Suc (fetches p s)))"
    if "cached p s = None" "reply_at p s (fetches p s) = Fails msg"
  proof -
    have n: "cached p (snd (read_property p s)) = None"
      using read_unset(3) [OF that(1)] that(2) by simp
    show ?thesis
      using read_unset(1,2) [OF that(1)] that(2) n read_unset(1) [OF n]
      by (simp add: raised_def read_replies)
  qed
  have kept: "cached q (snd (construct s)) = Some u" if "cached q s = Some u"
    using that by (simp add: construct_def split: init_fn.splits)
  show ?thesis
    using ok failed kept read_cached [of p s v] read_other [of q p s]
      read_keeps_cached [of q s u p] toImage_keeps_cached [of q s u a origin_arg]
    by blast
qed

theorem metadata_cache_states_witness:
  "fst (read_property Field_ocvTypes (module_load flaky_engine)) = Inl (EngineError ''no active session'')
   \<and> cached Field_ocvTypes (snd (read_property Field_ocvTypes (module_load flaky_engine))) = None
   \<and> fst (read_property Field_ocvTypes (snd (read_property Field_ocvTypes (module_load flaky_engine))))
       = Inr (Types example_types)
   \<and> fetches Field_ocvTypes (snd (read_property Field_ocvTypes (module_load example_engine))) = 1
   \<and> read_property Field_ocvTypes (snd (read_property Field_ocvTypes (module_load example_engine)))
       = (Inr (Types example_types), snd (read_property Field_ocvTypes (module_load example_engine)))"
proof -
  let ?f = "module_load flaky_engine" and ?e = "module_load example_engine"
  have f: "cached Field_ocvTypes ?f = None"
    "reply_at Field_ocvTypes ?f (fetches Field_ocvTypes ?f) = Fails ''no active session''"
    "raised (reply_at Field_ocvTypes ?f (Suc (fetches Field_ocvTypes ?f))) = Inr (Types example_types)"
    by (simp_all add: module_load_def init_def flaky_engine_def example_engine_def raised_def)
  have e: "cached Field_ocvTypes ?e = None"
    "reply_at Field_ocvTypes ?e (fetches Field_ocvTypes ?e) = Returns (Types example_types)"
    "fetches Field_ocvTypes ?e = 0"
    by (simp_all add: module_load_def init_def example_engine_def)
  show ?thesis
    using metadata_cache_states [of Field_ocvTypes ?f _ _ "''no active session''"] f
      metadata_cache_states [of Field_ocvTypes ?e _ "Types example_types"] e
    by simp
qed

subsection \<open>C7: the order of the fields\<close>

text \<open>
  C7 as it is stated does not hold. With an engine that reports the field names in
  alphabetical order, \<open>toImage\<close> returns \<open>alphabetical_row\<close>: its field names are not
  in the order origin, height, width, nChannels, mode, data, its field \<^verbatim>\<open>origin\<close>
  holds the mode and its field \<^verbatim>\<open>data\<close> holds the origin.
\<close>

theorem toImage_names_as_reported:
  "fst (toImage (module_load alphabetical_engine) example_gray (Some ''a.png'')) = Inr alphabetical_row
   \<and> row_fields alphabetical_row \<noteq> image_field_names
   \<and> getattr alphabetical_row ''origin'' = Inr (PyInt 0)
   \<and> getattr alphabetical_row ''data'' = Inr (PyStr ''a.png'')"
proof -
  have nd: "ndim example_gray = 3"
    by (simp add: ndim_def example_gray_def)
  have m: "(if shape example_gray ! 2 = 1 then example_types ''CV_8UC1''
      else if shape example_gray ! 2 = 3 then example_types ''CV_8UC3''
      else if shape example_gray ! 2 = 4 then example_types ''CV_8UC4'' else None) = Some 0"
    by (simp add: example_gray_def example_types_def)
  have "fst (toImage (module_load alphabetical_engine) example_gray (Some ''a.png'')) = Inr alphabetical_row"
    using toImage_success [OF nd alphabetical_reads(1) m alphabetical_reads(2), of "Some ''a.png''"]
    by (simp add: example_gray_def create_row_def alphabetical_row_def)
  then show ?thesis
    by (simp add: alphabetical_row_def create_row_def getattr_def image_field_names_def)
qed

text \<open>
  C7, amended. The values of a row that \<open>toImage\<close> returns are, by position, origin,
  height, width, nChannels, mode and data, whatever list of field names the engine
  reported; that list is attached to the row as it was reported, without reordering. So
  when the reported list is origin, height, width, nChannels, mode, data, every one of the
  six fields holds its own value.
\<close>

theorem toImage_row_layout:
  assumes "toImage s A origin_arg = (Inr r, s')"
  shows "\<exists>mode. row_values r =
       [PyStr (case origin_arg of None \<Rightarrow> '''' | Some given \<Rightarrow> given),
        PyInt (int (shape A ! 0)), PyInt (int (shape A ! 1)), PyInt (int (shape A ! 2)),
        PyInt mode, PyBytes (map word_of_int (ravel A))]
     \<and> fst (imageFields (snd (ocvTypes s))) = Inr (row_fields r)
     \<and> (row_fields r = image_field_names \<longrightarrow>
          getattr r ''origin'' = Inr (PyStr (case origin_arg of None \<Rightarrow> '''' | Some given \<Rightarrow> given))
        \<and> getattr r ''height'' = Inr (PyInt (int (shape A ! 0)))
        \<and> getattr r ''width'' = Inr (PyInt (int (shape A ! 1)))
        \<and> getattr r ''nChannels'' = Inr (PyInt (int (shape A ! 2)))
        \<and> getattr r ''mode'' = Inr (PyInt mode)
        \<and> getattr r ''data'' = Inr (PyBytes (map word_of_int (ravel A))))"
proof -
  from toImage_Inr [OF assms] obtain m names where
    names: "fst (imageFields (snd (ocvTypes s))) = Inr names" and
    r: "r = create_row names [PyStr (case origin_arg of None \<Rightarrow> '''' | Some g \<Rightarrow> g),
          PyInt (int (shape A ! 0)), PyInt (int (shape A ! 1)), PyInt (int (shape A ! 2)),
          PyInt m, PyBytes (map word_of_int (ravel A))]"
    by blast
  have "row_fields r = names" using r by (simp add: create_row_def)
  moreover have "row_values r = [PyStr (case origin_arg of None \<Rightarrow> '''' | Some g \<Rightarrow> g),
          PyInt (int (shape A ! 0)), PyInt (int (shape A ! 1)), PyInt (int (shape A ! 2)),
          PyInt m, PyBytes (map word_of_int (ravel A))]"
    using r by (simp add: create_row_def)
  moreover have "getattr r ''origin'' = Inr (PyStr (case origin_arg of None \<Rightarrow> '''' | Some g \<Rightarrow> g))
        \<and> getattr r ''height'' = Inr (PyInt (int (shape A ! 0)))
        \<and> getattr r ''width'' = Inr (PyInt (int (shape A ! 1)))
        \<and> getattr r ''nChannels'' = Inr (PyInt (int (shape A ! 2)))
        \<and> getattr r ''mode'' = Inr (PyInt m)
        \<and> getattr r ''data'' = Inr (PyBytes (map word_of_int (ravel A)))"
    if "names = image_field_names"
    unfolding r that by (simp add: getattr_image_row)
  ultimately show ?thesis using names by auto
qed

theorem toImage_row_layout_witness:
  "(\<exists>r s'. toImage (module_load alphabetical_engine) example_gray (Some ''a.png'') = (Inr r, s')
     \<and> row_fields r = [''data'', ''height'', ''mode'', ''nChannels'', ''origin'', ''width'']
     \<and> row_values r = [PyStr ''a.png'', PyInt 1, PyInt 2, PyInt 1, PyInt 0, PyBytes [10, 20]])
   \<and> (\<exists>r s'. toImage (module_load example_engine) example_array None = (Inr r, s')
     \<and> row_fields r = image_field_names
     \<and> getattr r ''origin'' = Inr (PyStr '''') \<and> getattr r ''height'' = Inr (PyInt 1)
     \<and> getattr r ''width'' = Inr (PyInt 2) \<and> getattr r ''nChannels'' = Inr (PyInt 3)
     \<and> getattr r ''mode'' = Inr (PyInt 16)
     \<and> getattr r ''data'' = Inr (PyBytes [0, 255, 0, 255, 7, 44]))"
proof -
  let ?s = "module_load alphabetical_engine"
  let ?names = "[''data'', ''height'', ''mode'', ''nChannels'', ''origin'', ''width'']"
  have nd: "ndim example_gray = 3"
    by (simp add: ndim_def example_gray_def)
  have m: "(if shape example_gray ! 2 = 1 then example_types ''CV_8UC1''
      else if shape example_gray ! 2 = 3 then example_types ''CV_8UC3''
      else if shape example_gray ! 2 = 4 then example_types ''CV_8UC4'' else None) = Some 0"
    by (simp add: example_gray_def example_types_def)
  obtain r s' where run: "toImage ?s example_gray (Some ''a.png'') = (Inr r, s')"
    and names: "row_fields r = ?names"
    using toImage_success [OF nd alphabetical_reads(1) m alphabetical_reads(2), of "Some ''a.png''"]
    by (simp add: create_row_def)
  from toImage_row_layout [OF run] obtain mode where
    "row_values r = [PyStr ''a.png'', PyInt 1, PyInt 2, PyInt 1, PyInt mode, PyBytes [10, 20]]"
    by (auto simp: example_gray_def)
  moreover have "row_values r ! 4 = PyInt 0"
    using toImage_success [OF nd alphabetical_reads(1) m alphabetical_reads(2), of "Some ''a.png''"] run
    by (simp add: create_row_def)
  ultimately have "row_values r = [PyStr ''a.png'', PyInt 1, PyInt 2, PyInt 1, PyInt 0, PyBytes [10, 20]]"
    by simp
  with run names have 1: "\<exists>r s'. toImage ?s example_gray (Some ''a.png'') = (Inr r, s')
     \<and> row_fields r = ?names
     \<and> row_values r = [PyStr ''a.png'', PyInt 1, PyInt 2, PyInt 1, PyInt 0, PyBytes [10, 20]]"
    by blast
  let ?r = "create_row image_field_names
        [PyStr '''', PyInt 1, PyInt 2, PyInt 3, PyInt 16, PyBytes [0, 255, 0, 255, 7, 44]]"
  have f: "row_fields ?r = image_field_names"
    by (simp add: create_row_def)
  from toImage_row_layout [OF example_array_run] f obtain mode' where
    v: "row_values ?r = [PyStr '''', PyInt (int (shape example_array ! 0)),
        PyInt (int (shape example_array ! 1)), PyInt (int (shape example_array ! 2)),
        PyInt mode', PyBytes (map word_of_int (ravel example_array))]"
    and g: "getattr ?r ''origin'' = Inr (PyStr '''')"
      "getattr ?r ''height'' = Inr (PyInt (int (shape example_array ! 0)))"
      "getattr ?r ''width'' = Inr (PyInt (int (shape example_array ! 1)))"
      "getattr ?r ''nChannels'' = Inr (PyInt (int (shape example_array ! 2)))"
      "getattr ?r ''mode'' = Inr (PyInt mode')"
      "getattr ?r ''data'' = Inr (PyBytes (map word_of_int (ravel example_array)))"
    by auto
  from v have "mode' = 16" by (simp add: create_row_def)
  with g have "getattr ?r ''origin'' = Inr (PyStr '''') \<and> getattr ?r ''height'' = Inr (PyInt 1)
     \<and> getattr ?r ''width'' = Inr (PyInt 2) \<and> getattr ?r ''nChannels'' = Inr (PyInt 3)
     \<and> getattr ?r ''mode'' = Inr (PyInt 16)
     \<and> getattr ?r ''data'' = Inr (PyBytes [0, 255, 0, 255, 7, 44])"
    by (simp add: example_array_def)
  with example_array_run f have 2: "\<exists>r s'. toImage (module_load example_engine) example_array None = (Inr r, s')
     \<and> row_fields r = image_field_names
     \<and> getattr r ''origin'' = Inr (PyStr '''') \<and> getattr r ''height'' = Inr (PyInt 1)
     \<and> getattr r ''width'' = Inr (PyInt 2) \<and> getattr r ''nChannels'' = Inr (PyInt 3)
     \<and> getattr r ''mode'' = Inr (PyInt 16)
     \<and> getattr r ''data'' = Inr (PyBytes [0, 255, 0, 255, 7, 44])"
    by blast
  from 1 2 show ?thesis by blast
qed

subsection \<open>C8: the default origin\<close>

text \<open>
  C8. When \<open>toImage\<close> is called without an origin and returns a row, the first value of
  the row is the empty string, and so is the field \<^verbatim>\<open>origin\<close> of a row that has the
  field names of the schema.
\<close>

theorem toImage_origin_default:
  assumes "toImage s A None = (Inr r, s')"
  shows "row_values r ! 0 = PyStr ''''
     \<and> (row_fields r = image_field_names \<longrightarrow> getattr r ''origin'' = Inr (PyStr ''''))"
  using toImage_Inr [OF assms]
  by (auto simp: create_row_def getattr_def image_field_names_def)

theorem toImage_origin_default_witness:
  "\<exists>r s'. toImage (module_load example_engine) example_array None = (Inr r, s')
     \<and> row_values r ! 0 = PyStr '''' \<and> getattr r ''origin'' = Inr (PyStr '''')"
proof -
  let ?r = "create_row image_field_names
        [PyStr '''', PyInt 1, PyInt 2, PyInt 3, PyInt 16, PyBytes [0, 255, 0, 255, 7, 44]]"
  have "row_fields ?r = image_field_names"
    by (simp add: create_row_def)
  with toImage_origin_default [OF example_array_run]
  have "row_values ?r ! 0 = PyStr '''' \<and> getattr ?r ''origin'' = Inr (PyStr '''')"
    by blast
  with example_array_run show ?thesis by blast
qed

subsection \<open>C9: rows whose data has the wrong length\<close>

text \<open>
  C9 as it is stated does not hold: \<open>short_row\<close> declares a height of 2, a width of 2
  and one channel and carries three bytes, and \<open>toNDArray\<close> does not return an array for
  it; the constructor of the array raises.
\<close>

theorem toNDArray_short_data_raises:
  "toNDArray short_row =
     Inl (ValueError ''strides is incompatible with shape of requested array and size of buffer'')"
  by (simp add: toNDArray_def short_row_def getattr_def create_row_def image_field_names_def
      bind_def as_int_def as_buffer_def np_ndarray_def CheckStrides_def fits_intp_def intp_def)

text \<open>
  C9, amended. \<open>toNDArray\<close> has no check of its own. For a row with non-negative
  height, width and nChannels of a size numpy can hold: when data has at least
  height * width * nChannels bytes, the result is the array of that shape over the first
  height * width * nChannels bytes, so bytes in excess are dropped without an error; when
  data is empty, the result is an array of that shape as well, whatever the shape; when
  data is not empty and shorter than height * width * nChannels, the constructor of the
  array raises a \<^verbatim>\<open>ValueError\<close>.
\<close>

theorem toNDArray_unchecked:
  assumes "getattr r ''height'' = Inr (PyInt h)" and "getattr r ''width'' = Inr (PyInt w)"
    and "getattr r ''nChannels'' = Inr (PyInt c)" and "getattr r ''data'' = Inr (PyBytes d)"
    and "0 \<le> h" and "0 \<le> w" and "0 \<le> c" and "size_fits h w c"
  shows "(h * w * c \<le> int (length d) \<longrightarrow>
            toNDArray r = Inr \<lparr>shape = [nat h, nat w, nat c], ravel = take (nat (h * w * c)) d\<rparr>)
       \<and> (d = [] \<longrightarrow>
            (\<exists>a. toNDArray r = Inr a \<and> shape a = [nat h, nat w, nat c]))
       \<and> (d \<noteq> [] \<and> int (length d) < h * w * c \<longrightarrow>
            toNDArray r = Inl (ValueError
              ''strides is incompatible with shape of requested array and size of buffer''))"
proof (intro conjI impI)
  note call = toNDArray_fields [OF assms(1-4)]
  show "toNDArray r = Inr \<lparr>shape = [nat h, nat w, nat c], ravel = take (nat (h * w * c)) d\<rparr>"
    if "h * w * c \<le> int (length d)"
    using call np_ndarray_contiguous [OF assms(5-8) that] by simp
  show "\<exists>a. toNDArray r = Inr a \<and> shape a = [nat h, nat w, nat c]" if "d = []"
  proof -
    have "toNDArray r = Inr \<lparr>shape = [nat h, nat w, nat c],
        ravel = view_elems d (nat h) (nat w) (nat c) (w * c) c 1\<rparr>"
      using call np_ndarray_view [OF assms(5-8), of d] that by simp
    then show ?thesis by simp
  qed
  show "toNDArray r = Inl (ValueError
      ''strides is incompatible with shape of requested array and size of buffer'')"
    if "d \<noteq> [] \<and> int (length d) < h * w * c"
    using call np_ndarray_too_small [OF assms(5-8), of d] that by simp
qed

theorem toNDArray_unchecked_witness:
  "toNDArray long_row = Inr \<lparr>shape = [1, 2, 1], ravel = [1, 2]\<rparr>
   \<and> (\<exists>a. toNDArray empty_row = Inr a \<and> shape a = [2, 2, 1])
   \<and> toNDArray short_row = Inl (ValueError
        ''strides is incompatible with shape of requested array and size of buffer'')"
proof -
  have l: "getattr long_row ''height'' = Inr (PyInt 1)" "getattr long_row ''width'' = Inr (PyInt 2)"
    "getattr long_row ''nChannels'' = Inr (PyInt 1)" "getattr long_row ''data'' = Inr (PyBytes [1, 2, 3])"
    by (simp_all add: long_row_def getattr_image_row)
  have e: "getattr empty_row ''height'' = Inr (PyInt 2)" "getattr empty_row ''width'' = Inr (PyInt 2)"
    "getattr empty_row ''nChannels'' = Inr (PyInt 1)" "getattr empty_row ''data'' = Inr (PyBytes [])"
    by (simp_all add: empty_row_def getattr_image_row)
  have s: "getattr short_row ''height'' = Inr (PyInt 2)" "getattr short_row ''width'' = Inr (PyInt 2)"
    "getattr short_row ''nChannels'' = Inr (PyInt 1)" "getattr short_row ''data'' = Inr (PyBytes [1, 2, 3])"
    by (simp_all add: short_row_def getattr_image_row)
  have sz: "size_fits 1 2 1" "size_fits 2 2 1"
    by (simp_all add: size_fits_def)
  show ?thesis
    using toNDArray_unchecked [OF l _ _ _ sz(1)] toNDArray_unchecked [OF e _ _ _ sz(2)]
      toNDArray_unchecked [OF s _ _ _ sz(2)]
    by simp
qed

subsection \<open>C10: origin and mode are not read\<close>

text \<open>
  C10. Two rows that agree on \<^verbatim>\<open>height\<close>, \<^verbatim>\<open>width\<close>, \<^verbatim>\<open>nChannels\<close> and
  \<^verbatim>\<open>data\<close> give the same result of \<open>toNDArray\<close>, however they differ in
  \<^verbatim>\<open>origin\<close> and \<^verbatim>\<open>mode\<close>.
\<close>

theorem toNDArray_ignores_origin_and_mode:
  assumes "getattr r1 ''height'' = getattr r2 ''height''"
    and "getattr r1 ''width'' = getattr r2 ''width''"
    and "getattr r1 ''nChannels'' = getattr r2 ''nChannels''"
    and "getattr r1 ''data'' = getattr r2 ''data''"
  shows "toNDArray r1 = toNDArray r2"
  using assms by (simp add: toNDArray_def)

theorem toNDArray_ignores_origin_and_mode_witness:
  "getattr long_row ''origin'' \<noteq> getattr long_row_renamed ''origin''
   \<and> getattr long_row ''mode'' \<noteq> getattr long_row_renamed ''mode''
   \<and> toNDArray long_row = toNDArray long_row_renamed"
proof -
  have "getattr long_row ''height'' = getattr long_row_renamed ''height''"
    "getattr long_row ''width'' = getattr long_row_renamed ''width''"
    "getattr long_row ''nChannels'' = getattr long_row_renamed ''nChannels''"
    "getattr long_row ''data'' = getattr long_row_renamed ''data''"
    by (simp_all add: long_row_def long_row_renamed_def getattr_image_row)
  then have "toNDArray long_row = toNDArray long_row_renamed"
    by (rule toNDArray_ignores_origin_and_mode)
  then show ?thesis
    by (simp add: long_row_def long_row_renamed_def getattr_image_row)
qed

end
